theory Spec2Isabelle
  imports Complex_Main "HOL-Library.Sublist"
begin

section \<open>Offline map screen: a shallow embedding of the map screen component\<close>

text \<open>
  The component is a React function component. Its state hooks (\<open>downloading\<close>,
  \<open>downloadProgress\<close>, \<open>offlineMapAvailable\<close>, \<open>db\<close>) are fields of a record that every
  handler takes and returns. The file system, the download transfer and the embedded
  database are platform services: the file system is a map from paths to contents, the
  other two are parameters of the model (record \<open>platform\<close>).

  File contents are byte strings; a byte is a \<open>char\<close>. Reading a file as UTF-8 text is
  taken to return its bytes unchanged, which is exact for the ASCII documents the code
  looks for.
\<close>

subsection \<open>Coverage region\<close>

text \<open>\<open>KOLKATA_BOUNDS\<close>, the compiled-in constant. JavaScript numbers are modelled as reals.\<close>

definition minLat :: real where "minLat = 22.479910"
definition maxLat :: real where "maxLat = 22.660090"
definition minLng :: real where "minLng = 88.262718"
definition maxLng :: real where "maxLng = 88.457282"

definition isLocationInBounds :: "real \<Rightarrow> real \<Rightarrow> bool" where
  "isLocationInBounds lat lng =
     (lat \<ge> minLat \<and> lat \<le> maxLat \<and> lng \<ge> minLng \<and> lng \<le> maxLng)"

subsection \<open>Strings\<close>

text \<open>\<open>String.prototype.startsWith\<close> and \<open>String.prototype.includes\<close> (\<open>includesStr\<close>).\<close>

definition startsWith :: "string \<Rightarrow> string \<Rightarrow> bool" where
  "startsWith s p = prefix p s"

fun includesStr :: "string \<Rightarrow> string \<Rightarrow> bool" where
  "includesStr [] p = (p = [])"
| "includesStr (c # cs) p = (prefix p (c # cs) \<or> includesStr cs p)"

subsection \<open>Base64, as the file system's \<open>EncodingType.Base64\<close> produces it\<close>

definition b64alphabet :: string where
  "b64alphabet = ''ABCDEFGHIJKLMNOPQRSTUVWXYZabcdefghijklmnopqrstuvwxyz0123456789+/''"

definition b64digit :: "nat \<Rightarrow> char" where
  "b64digit n = b64alphabet ! n"

fun base64 :: "string \<Rightarrow> string" where
  "base64 (a # b # c # rest) =
     (let x = (of_char a :: nat); y = (of_char b :: nat); z = (of_char c :: nat) in
      [b64digit (x div 4), b64digit ((x mod 4) * 16 + y div 16),
       b64digit ((y mod 16) * 4 + z div 64), b64digit (z mod 64)]) @ base64 rest"
| "base64 [a, b] =
     (let x = (of_char a :: nat); y = (of_char b :: nat) in
      [b64digit (x div 4), b64digit ((x mod 4) * 16 + y div 16),
       b64digit ((y mod 16) * 4), CHR ''=''])"
| "base64 [a] =
     (let x = (of_char a :: nat) in
      [b64digit (x div 4), b64digit ((x mod 4) * 16), CHR ''='', CHR ''=''])"
| "base64 [] = []"

subsection \<open>Artifact store\<close>

type_synonym path = string
type_synonym store = "path \<rightharpoonup> string"

text \<open>\<open>FileSystem.getInfoAsync\<close>: the fields \<open>exists\<close> and \<open>size\<close> of the result.\<close>

definition fexists :: "store \<Rightarrow> path \<Rightarrow> bool" where
  "fexists fs p = (fs p \<noteq> None)"

definition fsize :: "store \<Rightarrow> path \<Rightarrow> nat" where
  "fsize fs p = (case fs p of None \<Rightarrow> 0 | Some c \<Rightarrow> length c)"

text \<open>The 16-byte header of the embedded-database file format.\<close>

definition sqliteMagic :: string where
  "sqliteMagic = ''SQLite format 3'' @ [CHR 0x00]"

text \<open>
  \<open>isValidSQLiteDatabase\<close>: read 16 bytes in Base64 (option \<open>length: 16\<close>) and compare the
  start of the text with the constant of the source. The comparison looks at eight
  characters, which the first six bytes of the file determine. A read that throws (no such
  file) is caught and gives false.
\<close>

definition isValidSQLiteDatabase :: "store \<Rightarrow> path \<Rightarrow> bool" where
  "isValidSQLiteDatabase fs filePath =
     (case fs filePath of
        None \<Rightarrow> False
      | Some c \<Rightarrow> startsWith (base64 (take 16 c)) ''U1RGRnRt'')"

subsection \<open>Component state, platform services\<close>

text \<open>
  A JavaScript number as far as the progress scalar needs it: a real, or NaN.
\<close>

datatype jsnum = Num real | NaN

text \<open>The errors the code throws, by the message of the \<open>Error\<close> object.\<close>

datatype err =
    NoFileReceived
  | LinkExtractionFailed
  | RetryNoFileReceived
  | EmptyOrInvalid
  | NotValidSQLite
  | SaveFailed
  | Corrupted
  | PlatformError string

fun message :: "err \<Rightarrow> string" where
  "message NoFileReceived = ''Download failed - no file received''"
| "message LinkExtractionFailed = ''Failed to extract direct download link from Google Drive.''"
| "message RetryNoFileReceived = ''Retry download failed - no file received''"
| "message EmptyOrInvalid = ''Downloaded file is empty or invalid.''"
| "message NotValidSQLite = ''Downloaded file is not a valid SQLite database (MBTiles file).''"
| "message SaveFailed = ''Failed to save MBTiles file.''"
| "message Corrupted = ''Downloaded file appears to be invalid or corrupted.''"
| "message (PlatformError m) = m"

text \<open>What an observer of the component can see, in the order it happens.\<close>

datatype event =
    Progress jsnum
  | Transfer string path
  | Alert string string
  | ConsoleError string err
  | CloseDb path
  | DeleteFile path
  | MoveFile path path

record state =
  files :: store
  downloading :: bool
  downloadProgress :: jsnum
  offlineMapAvailable :: bool
  db :: "path option"
  trace :: "event list"

text \<open>
  A handler is a closure created by one render of the component. The constants
  \<open>offlineMapAvailable\<close> and \<open>db\<close> that its body reads are those of that render: a state
  setter called while the handler runs changes the state for the next render, not the
  constants of the running closure.
\<close>

record render =
  seen_offlineMapAvailable :: bool
  seen_db :: "path option"

definition renderOf :: "state \<Rightarrow> render" where
  "renderOf s = \<lparr>seen_offlineMapAvailable = offlineMapAvailable s, seen_db = db s\<rparr>"

text \<open>
  The answer of the download transfer to one request: how it settles, and the
  (bytes written, bytes expected) pairs it reports meanwhile.
\<close>

datatype outcome = Delivered string | NoResult | Threw string

record response =
  outcome :: outcome
  ticks :: "(nat \<times> int) list"

text \<open>
  How the embedded database behaves on a file: whether it opens, the table names it lists
  (\<open>None\<close>: the query throws), and whether the row count and the metadata query succeed.
\<close>

record dbfile =
  opens :: bool
  tables :: "string list option"
  count_ok :: "string \<Rightarrow> bool"
  metadata_ok :: bool

record platform =
  documentDirectory :: string
  net :: "nat \<Rightarrow> string \<Rightarrow> response"
  engine :: "string \<Rightarrow> dbfile"
  move_fails :: "string option"
  close_fails :: "string option"

definition GITHUB_RELEASE_URL :: string where
  "GITHUB_RELEASE_URL =
     ''https://drive.google.com/uc?export=download&id=1KghfVnf3KPPnvpOtqJCNXnHdGZC9BNj1&confirm=t''"

definition mbtilesPath :: "platform \<Rightarrow> path" where
  "mbtilesPath P = documentDirectory P @ ''kolkata_10km.mbtiles''"

definition tempDownloadPath :: "platform \<Rightarrow> path" where
  "tempDownloadPath P = documentDirectory P @ ''kolkata_10km_download.mbtiles''"

subsection \<open>State setters and effects\<close>

definition setDownloading :: "bool \<Rightarrow> state \<Rightarrow> state" where
  "setDownloading b s = s\<lparr>downloading := b\<rparr>"

definition setDownloadProgress :: "jsnum \<Rightarrow> state \<Rightarrow> state" where
  "setDownloadProgress v s = s\<lparr>downloadProgress := v, trace := trace s @ [Progress v]\<rparr>"

definition setOfflineMapAvailable :: "bool \<Rightarrow> state \<Rightarrow> state" where
  "setOfflineMapAvailable b s = s\<lparr>offlineMapAvailable := b\<rparr>"

definition setDb :: "path option \<Rightarrow> state \<Rightarrow> state" where
  "setDb h s = s\<lparr>db := h\<rparr>"

definition alert :: "string \<Rightarrow> string \<Rightarrow> state \<Rightarrow> state" where
  "alert title msg s = s\<lparr>trace := trace s @ [Alert title msg]\<rparr>"

definition consoleError :: "string \<Rightarrow> err \<Rightarrow> state \<Rightarrow> state" where
  "consoleError tag e s = s\<lparr>trace := trace s @ [ConsoleError tag e]\<rparr>"

definition deleteAsync :: "path \<Rightarrow> state \<Rightarrow> state" where
  "deleteAsync p s = s\<lparr>files := (files s)(p := None), trace := trace s @ [DeleteFile p]\<rparr>"

definition moveAsync :: "path \<Rightarrow> path \<Rightarrow> state \<Rightarrow> state" where
  "moveAsync src dst s =
     s\<lparr>files := ((files s)(src := None))(dst := files s src),
       trace := trace s @ [MoveFile src dst]\<rparr>"

definition closeAsync :: "path \<Rightarrow> state \<Rightarrow> state" where
  "closeAsync h s = s\<lparr>trace := trace s @ [CloseDb h]\<rparr>"

text \<open>The transfer requests issued so far, and the progress values reported so far.\<close>

fun transfers :: "event list \<Rightarrow> (string \<times> path) list" where
  "transfers [] = []"
| "transfers (Transfer u p # es) = (u, p) # transfers es"
| "transfers (e # es) = transfers es"

fun progressValues :: "event list \<Rightarrow> jsnum list" where
  "progressValues [] = []"
| "progressValues (Progress v # es) = v # progressValues es"
| "progressValues (e # es) = progressValues es"

fun alerts :: "event list \<Rightarrow> (string \<times> string) list" where
  "alerts [] = []"
| "alerts (Alert t m # es) = (t, m) # alerts es"
| "alerts (e # es) = alerts es"

fun thrown :: "event list \<Rightarrow> err list" where
  "thrown [] = []"
| "thrown (ConsoleError t e # es) = e # thrown es"
| "thrown (e # es) = thrown es"

subsection \<open>Download transfer\<close>

text \<open>
  The progress callback: \<open>progress = totalBytesWritten / totalBytesExpectedToWrite\<close>, then
  \<open>setDownloadProgress(Math.min(progress, 0.9))\<close>. In JavaScript a positive number divided
  by zero is \<open>Infinity\<close>, whose minimum with 0.9 is 0.9, and \<open>0 / 0\<close> is NaN, which
  \<open>Math.min\<close> returns.
\<close>

definition cappedProgress :: "nat \<Rightarrow> int \<Rightarrow> jsnum" where
  "cappedProgress written expected =
     (if expected = 0 then (if written = 0 then NaN else Num 0.9)
      else Num (min (real written / real_of_int expected) 0.9))"

definition progressCallback :: "nat \<times> int \<Rightarrow> state \<Rightarrow> state" where
  "progressCallback t s = setDownloadProgress (cappedProgress (fst t) (snd t)) s"

text \<open>
  \<open>createDownloadResumable(url, dest, {}, callback).downloadAsync()\<close>: the request is
  issued, the callback runs for every report, and the promise settles: resolved with a
  result whose \<open>uri\<close> is the destination (the content is then at the destination),
  resolved with \<open>undefined\<close>, or rejected.
\<close>

datatype 'a settled = Resolved 'a | Rejected string

definition reportProgress :: "platform \<Rightarrow> string \<Rightarrow> path \<Rightarrow> state \<Rightarrow> state" where
  "reportProgress P url dest s =
     fold progressCallback (ticks (net P (length (transfers (trace s))) url))
       (s\<lparr>trace := trace s @ [Transfer url dest]\<rparr>)"

definition downloadAsync :: "platform \<Rightarrow> string \<Rightarrow> path \<Rightarrow> state \<Rightarrow> path option settled \<times> state" where
  "downloadAsync P url dest s =
     (let s1 = reportProgress P url dest s
      in case outcome (net P (length (transfers (trace s))) url) of
           Delivered c \<Rightarrow> (Resolved (Some dest), s1\<lparr>files := (files s1)(dest \<mapsto> c)\<rparr>)
         | NoResult \<Rightarrow> (Resolved None, s1)
         | Threw m \<Rightarrow> (Rejected m, s1))"

subsection \<open>Availability checker\<close>

definition initializeCatch :: "state \<Rightarrow> state" where
  "initializeCatch s = setDb None (setOfflineMapAvailable False s)"

definition isTilesTable :: "string \<Rightarrow> bool" where
  "isTilesTable name = (name = ''tiles'' \<or> name = ''tile'')"

definition initializeDatabase :: "platform \<Rightarrow> state \<Rightarrow> state" where
  "initializeDatabase P s =
     (case files s (mbtilesPath P) of
        None \<Rightarrow> setOfflineMapAvailable False s
      | Some c \<Rightarrow>
          (let d = engine P c in
           if \<not> opens d then initializeCatch s
           else
             (let s1 = setDb (Some (mbtilesPath P)) s in
              case tables d of
                None \<Rightarrow> initializeCatch s1
              | Some ts \<Rightarrow>
                  (case find isTilesTable ts of
                     Some t \<Rightarrow>
                       if \<not> count_ok d t then initializeCatch s1
                       else (case find (\<lambda>n. n = ''metadata'') ts of
                               Some m \<Rightarrow> if \<not> metadata_ok d then initializeCatch s1 else s1
                             | None \<Rightarrow> s1)
                   | None \<Rightarrow>
                       (case find (\<lambda>n. n = ''metadata'') ts of
                          Some m \<Rightarrow> if \<not> metadata_ok d then initializeCatch s1 else s1
                        | None \<Rightarrow> s1)))))"

definition checkOfflineMapAvailability :: "platform \<Rightarrow> state \<Rightarrow> state" where
  "checkOfflineMapAvailability P s =
     (if fexists (files s) (mbtilesPath P) \<and> fsize (files s) (mbtilesPath P) > 0
      then initializeDatabase P (setOfflineMapAvailable True s)
      else setOfflineMapAvailable False s)"

text \<open>The availability an observer reads after the check has run.\<close>

definition isAvailable :: "platform \<Rightarrow> state \<Rightarrow> bool" where
  "isAvailable P s = offlineMapAvailable (checkOfflineMapAvailability P s)"

subsection \<open>Redirect page: the direct link\<close>

text \<open>
  \<open>html.match(/uc\?export=download&confirm=([^"]+)/)\<close>: the leftmost place where the
  literal text is followed by at least one character other than the double quote; the
  match is the literal and the longest run of such characters. The link is the match
  after \<open>https://drive.google.com/\<close>.
\<close>

definition confirmPattern :: string where
  "confirmPattern = ''uc?export=download&confirm=''"

definition dquote :: char where
  "dquote = CHR 0x22"

definition matchHere :: "string \<Rightarrow> string option" where
  "matchHere s =
     (if prefix confirmPattern s
      then (let tok = takeWhile (\<lambda>c. c \<noteq> dquote) (drop (length confirmPattern) s)
            in if tok = [] then None else Some (confirmPattern @ tok))
      else None)"

fun matchFirst :: "string \<Rightarrow> string option" where
  "matchFirst [] = None"
| "matchFirst (c # cs) =
     (case matchHere (c # cs) of Some m \<Rightarrow> Some m | None \<Rightarrow> matchFirst cs)"

definition extractDirectDownloadLink :: "string \<Rightarrow> string option" where
  "extractDirectDownloadLink html =
     (case matchFirst html of
        Some m \<Rightarrow> Some (''https://drive.google.com/'' @ m)
      | None \<Rightarrow> None)"

subsection \<open>Validation and install\<close>

definition processFailedMessage :: "err \<Rightarrow> string" where
  "processFailedMessage e =
     ''Failed to process the downloaded map.'' @
     (if includesStr (message e) ''empty''
      then [CHR 0x0A] @ ''The downloaded file is empty.''
      else if includesStr (message e) ''valid SQLite''
      then [CHR 0x0A] @ ''The downloaded file is not a valid MBTiles file.''
      else if includesStr (message e) ''corrupted''
      then [CHR 0x0A] @ ''The downloaded file is corrupted.''
      else [])"

text \<open>
  The \<open>catch\<close> block of \<open>processDownloadedFile\<close>: log, alert, then the clean-up, which
  looks at the canonical path and deletes the file there when it exists.
\<close>

definition processCatch :: "platform \<Rightarrow> err \<Rightarrow> state \<Rightarrow> state" where
  "processCatch P e s =
     (let s1 = alert ''Processing Failed'' (processFailedMessage e)
                 (consoleError ''Processing failed:'' e s)
      in if fexists (files s1) (mbtilesPath P) then deleteAsync (mbtilesPath P) s1 else s1)"

definition successAlert :: "state \<Rightarrow> state" where
  "successAlert s = alert ''Success!'' ''Offline map downloaded and installed successfully!'' s"

text \<open>
  \<open>processDownloadedFile\<close>. The test \<open>if (offlineMapAvailable)\<close> after the availability
  check reads the constant of the render that created the handler.
\<close>

definition processDownloadedFile :: "platform \<Rightarrow> render \<Rightarrow> path \<Rightarrow> state \<Rightarrow> state" where
  "processDownloadedFile P r filePath s =
     (if \<not> fexists (files s) filePath \<or> fsize (files s) filePath = 0
      then processCatch P EmptyOrInvalid s
      else if \<not> isValidSQLiteDatabase (files s) filePath
      then processCatch P NotValidSQLite s
      else
        (let s1 = (if fexists (files s) (mbtilesPath P) then deleteAsync (mbtilesPath P) s else s)
         in case move_fails P of
              Some m \<Rightarrow> processCatch P (PlatformError m) s1
            | None \<Rightarrow>
                (let s2 = moveAsync filePath (mbtilesPath P) s1 in
                 if \<not> fexists (files s2) (mbtilesPath P) \<or> fsize (files s2) (mbtilesPath P) = 0
                 then processCatch P SaveFailed s2
                 else
                   (let s3 = checkOfflineMapAvailability P (setDownloadProgress (Num 1) s2) in
                    if seen_offlineMapAvailable r then successAlert s3
                    else processCatch P Corrupted s3))))"

subsection \<open>The download operation\<close>

definition downloadFailedMessage :: "err \<Rightarrow> string" where
  "downloadFailedMessage e =
     ''Failed to download offline map.'' @
     (if includesStr (message e) ''Network'' then '' Please check your internet connection.''
      else if includesStr (message e) ''404'' then '' The map file was not found.''
      else if includesStr (message e) ''HTML''
      then '' Google Drive returned an HTML page instead of the file.''
      else '' '' @ message e)"

definition startCatch :: "err \<Rightarrow> state \<Rightarrow> state" where
  "startCatch e s =
     alert ''Download Failed'' (downloadFailedMessage e) (consoleError ''Download failed:'' e s)"

definition startFinally :: "state \<Rightarrow> state" where
  "startFinally s = setDownloadProgress (Num 0) (setDownloading False s)"

text \<open>The first step of the \<open>try\<close> block: remove the existing temporary file if it exists.\<close>

definition removeExistingTemp :: "platform \<Rightarrow> state \<Rightarrow> state" where
  "removeExistingTemp P s =
     (if fexists (files s) (tempDownloadPath P) then deleteAsync (tempDownloadPath P) s else s)"

text \<open>
  The \<open>try\<close> block of \<open>startDownload\<close>, every \<open>throw\<close> going to its \<open>catch\<close> block. The
  first read of the downloaded file asks for 100 bytes (option \<open>length: 100\<close>), the second
  reads the whole file. A read of a file that does not exist rejects.
\<close>

definition startTry :: "platform \<Rightarrow> render \<Rightarrow> state \<Rightarrow> state" where
  "startTry P r s =
     (let s1 = removeExistingTemp P s
      in case downloadAsync P GITHUB_RELEASE_URL (tempDownloadPath P) s1 of
           (Rejected m, s2) \<Rightarrow> startCatch (PlatformError m) s2
         | (Resolved None, s2) \<Rightarrow> startCatch NoFileReceived s2
         | (Resolved (Some uri), s2) \<Rightarrow>
             (case files s2 uri of
                None \<Rightarrow> startCatch (PlatformError ''File not found'') s2
              | Some content \<Rightarrow>
                  if includesStr (take 100 content) ''<!DOCTYPE html>''
                  then
                    (case extractDirectDownloadLink content of
                       None \<Rightarrow> startCatch LinkExtractionFailed s2
                     | Some directDownloadLink \<Rightarrow>
                         (case downloadAsync P directDownloadLink (tempDownloadPath P) s2 of
                            (Rejected m, s3) \<Rightarrow> startCatch (PlatformError m) s3
                          | (Resolved None, s3) \<Rightarrow> startCatch RetryNoFileReceived s3
                          | (Resolved (Some retryUri), s3) \<Rightarrow>
                              processDownloadedFile P r retryUri s3))
                  else processDownloadedFile P r uri s2))"

definition startDownload :: "platform \<Rightarrow> render \<Rightarrow> state \<Rightarrow> state" where
  "startDownload P r s =
     startFinally (startTry P r (setDownloadProgress (Num 0) (setDownloading True s)))"

subsection \<open>Deleting the installed package\<close>

text \<open>
  The handler of the \<open>Delete\<close> button of the confirmation dialog that \<open>deleteOfflineMap\<close>
  shows. The test \<open>if (db)\<close> reads the constant of the render that created the handler.
\<close>

definition deleteCatch :: "err \<Rightarrow> state \<Rightarrow> state" where
  "deleteCatch e s =
     alert ''Error'' ''Failed to delete offline map''
       (consoleError ''Error deleting offline map:'' e s)"

definition deleteFile :: "platform \<Rightarrow> state \<Rightarrow> state" where
  "deleteFile P s =
     (let s1 = (if fexists (files s) (mbtilesPath P) then deleteAsync (mbtilesPath P) s else s)
      in alert ''Success'' ''Offline map deleted successfully'' (setOfflineMapAvailable False s1))"

definition deleteOfflineMap :: "platform \<Rightarrow> render \<Rightarrow> state \<Rightarrow> state" where
  "deleteOfflineMap P r s =
     (case seen_db r of
        Some h \<Rightarrow>
          (case close_fails P of
             Some m \<Rightarrow> deleteCatch (PlatformError m) (closeAsync h s)
           | None \<Rightarrow> deleteFile P (setDb None (closeAsync h s)))
      | None \<Rightarrow> deleteFile P s)"

subsection \<open>Example inputs\<close>

text \<open>
  Concrete platforms, stores and states on which the properties below are evaluated.
\<close>

definition exampleDir :: string where
  "exampleDir = ''file:///data/app/files/''"

definition tilesDb :: dbfile where
  "tilesDb = \<lparr>opens = True, tables = Some [''metadata'', ''tiles''],
              count_ok = (\<lambda>t. True), metadata_ok = True\<rparr>"

definition noTablesDb :: dbfile where
  "noTablesDb = \<lparr>opens = True, tables = Some [], count_ok = (\<lambda>t. True), metadata_ok = True\<rparr>"

definition notADb :: dbfile where
  "notADb = \<lparr>opens = False, tables = None, count_ok = (\<lambda>t. False), metadata_ok = False\<rparr>"

definition silent :: "nat \<Rightarrow> string \<Rightarrow> response" where
  "silent n url = \<lparr>outcome = NoResult, ticks = []\<rparr>"

definition examplePlatform :: "(nat \<Rightarrow> string \<Rightarrow> response) \<Rightarrow> (string \<Rightarrow> dbfile) \<Rightarrow> platform" where
  "examplePlatform n e =
     \<lparr>documentDirectory = exampleDir, net = n, engine = e, move_fails = None, close_fails = None\<rparr>"

definition idle :: "store \<Rightarrow> state" where
  "idle fs = \<lparr>files = fs, downloading = False, downloadProgress = Num 0,
              offlineMapAvailable = False, db = None, trace = []\<rparr>"

definition examplePackage :: string where
  "examplePackage = sqliteMagic @ ''tiles''"

definition installed :: store where
  "installed = [exampleDir @ ''kolkata_10km.mbtiles'' \<mapsto> examplePackage]"

definition zeroHeader :: string where
  "zeroHeader = replicate 16 (CHR 0x00)"

definition acceptedFile :: string where
  "acceptedFile = ''STFFtm'' @ replicate 10 (CHR 0x00)"

definition redirectPage :: string where
  "redirectPage = ''<!DOCTYPE html><html><a href='' @ [dquote]
     @ ''/uc?export=download&confirm=XYZ&id=1'' @ [dquote] @ ''>Download anyway</a></html>''"

definition quotaPage :: string where
  "quotaPage = ''<!DOCTYPE html><html>Download quota exceeded</html>''"

definition deliver :: "string \<Rightarrow> nat \<Rightarrow> string \<Rightarrow> response" where
  "deliver c n url = \<lparr>outcome = Delivered c, ticks = [(8, 16), (16, 16)]\<rparr>"

definition deliverInTurn :: "string list \<Rightarrow> nat \<Rightarrow> string \<Rightarrow> response" where
  "deliverInTurn cs n url = (if n < length cs then deliver (cs ! n) n url else silent n url)"

definition strictEngine :: "string \<Rightarrow> dbfile" where
  "strictEngine c = (if prefix sqliteMagic c then tilesDb else notADb)"

definition always :: "dbfile \<Rightarrow> string \<Rightarrow> dbfile" where
  "always d c = d"

definition fresh :: state where
  "fresh = idle Map.empty"

definition withPackage :: state where
  "withPackage = idle installed"

definition downloaded :: "string \<Rightarrow> state" where
  "downloaded c = idle [exampleDir @ ''kolkata_10km_download.mbtiles'' \<mapsto> c]"


text \<open>
  The render between \<open>setOfflineMapAvailable(true)\<close> and \<open>setDb(database)\<close> of the
  availability check: it shows the delete button, and its constant \<open>db\<close> is still null.
\<close>

definition renderBeforeOpen :: render where
  "renderBeforeOpen = \<lparr>seen_offlineMapAvailable = True, seen_db = None\<rparr>"

subsection \<open>Abbreviations used in the proofs\<close>

text \<open>
  The progress events of a list of reports, and the state after a first transfer that
  delivered \<open>c\<close>.
\<close>

abbreviation reported :: "(nat \<times> int) list \<Rightarrow> event list" where
  "reported ts \<equiv> map (\<lambda>t. Progress (cappedProgress (fst t) (snd t))) ts"

abbreviation afterFirst :: "platform \<Rightarrow> string \<Rightarrow> state \<Rightarrow> state" where
  "afterFirst P c s \<equiv>
     (reportProgress P GITHUB_RELEASE_URL (tempDownloadPath P) (removeExistingTemp P s))
       \<lparr>files := (files (removeExistingTemp P s))(tempDownloadPath P \<mapsto> c)\<rparr>"

section \<open>Properties\<close>

lemmas fixture_defs = always_def fresh_def withPackage_def downloaded_def exampleDir_def
  tilesDb_def noTablesDb_def notADb_def silent_def examplePlatform_def idle_def
  examplePackage_def installed_def

lemmas setter_defs = setDownloading_def setDownloadProgress_def setOfflineMapAvailable_def
  setDb_def alert_def consoleError_def deleteAsync_def moveAsync_def closeAsync_def

subsection \<open>Auxiliary facts about traces\<close>

lemma progressValues_append:
  "progressValues (xs @ ys) = progressValues xs @ progressValues ys"
  by (induction xs rule: progressValues.induct) simp_all

lemma transfers_append:
  "transfers (xs @ ys) = transfers xs @ transfers ys"
  by (induction xs rule: transfers.induct) simp_all

lemma alerts_append:
  "alerts (xs @ ys) = alerts xs @ alerts ys"
  by (induction xs rule: alerts.induct) simp_all

lemma thrown_append:
  "thrown (xs @ ys) = thrown xs @ thrown ys"
  by (induction xs rule: thrown.induct) simp_all

subsection \<open>Region gate\<close>

lemma bounds_ordered: "minLat \<le> maxLat" "minLng \<le> maxLng"
  by (simp_all add: minLat_def maxLat_def minLng_def maxLng_def)


text \<open>
  C7. For all real \<open>lat\<close> and \<open>lng\<close> the region gate is true exactly when
  \<open>south \<le> lat \<le> north\<close> and \<open>west \<le> lng \<le> east\<close> for the stored bounds: true strictly
  inside, false strictly outside any of the four edges, true on the boundary. The gate is
  a function of its two arguments alone.
\<close>

theorem isLocationInBounds_closed_box:
  "(isLocationInBounds lat lng \<longleftrightarrow>
      minLat \<le> lat \<and> lat \<le> maxLat \<and> minLng \<le> lng \<and> lng \<le> maxLng)
   \<and> (minLat < lat \<and> lat < maxLat \<and> minLng < lng \<and> lng < maxLng
        \<longrightarrow> isLocationInBounds lat lng)
   \<and> (lat < minLat \<or> maxLat < lat \<or> lng < minLng \<or> maxLng < lng
        \<longrightarrow> \<not> isLocationInBounds lat lng)
   \<and> ((lat = minLat \<or> lat = maxLat) \<and> minLng \<le> lng \<and> lng \<le> maxLng
        \<longrightarrow> isLocationInBounds lat lng)
   \<and> ((lng = minLng \<or> lng = maxLng) \<and> minLat \<le> lat \<and> lat \<le> maxLat
        \<longrightarrow> isLocationInBounds lat lng)"
proof (intro conjI impI)
  show "isLocationInBounds lat lng \<longleftrightarrow>
      minLat \<le> lat \<and> lat \<le> maxLat \<and> minLng \<le> lng \<and> lng \<le> maxLng"
    by (simp add: isLocationInBounds_def)
next
  assume "minLat < lat \<and> lat < maxLat \<and> minLng < lng \<and> lng < maxLng"
  then show "isLocationInBounds lat lng"
    by (simp add: isLocationInBounds_def)
next
  assume "lat < minLat \<or> maxLat < lat \<or> lng < minLng \<or> maxLng < lng"
  then show "\<not> isLocationInBounds lat lng"
    unfolding isLocationInBounds_def by linarith
next
  assume "(lat = minLat \<or> lat = maxLat) \<and> minLng \<le> lng \<and> lng \<le> maxLng"
  then show "isLocationInBounds lat lng"
    unfolding isLocationInBounds_def using bounds_ordered(1) by linarith
next
  assume "(lng = minLng \<or> lng = maxLng) \<and> minLat \<le> lat \<and> lat \<le> maxLat"
  then show "isLocationInBounds lat lng"
    unfolding isLocationInBounds_def using bounds_ordered(2) by linarith
qed

theorem isLocationInBounds_closed_box_witness:
  "isLocationInBounds 22.57 88.36 \<and> \<not> isLocationInBounds 22.7 88.36
   \<and> \<not> isLocationInBounds 22.57 88.2 \<and> isLocationInBounds minLat maxLng"
proof -
  have inside: "minLat < 22.57 \<and> 22.57 < maxLat \<and> minLng < 88.36 \<and> 88.36 < maxLng"
    by (simp add: minLat_def maxLat_def minLng_def maxLng_def)
  have north: "22.7 < minLat \<or> maxLat < 22.7 \<or> 88.36 < minLng \<or> maxLng < 88.36"
    by (simp add: minLat_def maxLat_def minLng_def maxLng_def)
  have west: "22.57 < minLat \<or> maxLat < 22.57 \<or> 88.2 < minLng \<or> maxLng < 88.2"
    by (simp add: minLat_def maxLat_def minLng_def maxLng_def)
  have corner: "(minLat = minLat \<or> minLat = maxLat) \<and> minLng \<le> maxLng \<and> maxLng \<le> maxLng"
    by (simp add: minLng_def maxLng_def)
  note a = isLocationInBounds_closed_box [of "22.57" "88.36", THEN conjunct2, THEN conjunct1, THEN mp, OF inside]
  note b = isLocationInBounds_closed_box [of "22.7" "88.36", THEN conjunct2, THEN conjunct2, THEN conjunct1, THEN mp, OF north]
  note c = isLocationInBounds_closed_box [of "22.57" "88.2", THEN conjunct2, THEN conjunct2, THEN conjunct1, THEN mp, OF west]
  note d = isLocationInBounds_closed_box [of minLat maxLng, THEN conjunct2, THEN conjunct2, THEN conjunct2, THEN conjunct1, THEN mp, OF corner]
  from a b c d show ?thesis by (intro conjI)
qed

subsection \<open>Format validation\<close>

text \<open>
  C1. Format validation is to accept exactly the files that begin with the 16-byte
  signature \<open>SQLite format 3\0\<close>. The constant the code compares with is not the Base64
  text of that signature (which is \<open>U1FMaXRlIGZvcm1hdCAzAA==\<close>): every file that begins
  with the signature is rejected, whatever follows it, and a file that begins with the
  six bytes \<open>STFFtm\<close> is accepted.
\<close>

theorem sqlite_header_fails_validation:
  "isValidSQLiteDatabase (fs(p \<mapsto> sqliteMagic @ rest)) p = False
   \<and> base64 sqliteMagic = ''U1FMaXRlIGZvcm1hdCAzAA==''
   \<and> isValidSQLiteDatabase (fs(p \<mapsto> ''STFFtm, not a database'')) p = True"
  by (simp add: isValidSQLiteDatabase_def startsWith_def sqliteMagic_def b64digit_def
      b64alphabet_def)

subsection \<open>The download operation always settles idle\<close>

text \<open>
  C10. Every run of the download operation, on every path, ends with the downloading
  flag false and the progress scalar 0; the last progress value reported is 0, also after
  a successful install.
\<close>

theorem startDownload_settles_idle:
  "downloading (startDownload P r s) = False
   \<and> downloadProgress (startDownload P r s) = Num 0
   \<and> last (progressValues (trace (startDownload P r s))) = Num 0"
  by (simp add: startDownload_def startFinally_def setDownloadProgress_def
      setDownloading_def progressValues_append)

subsection \<open>Availability checker\<close>

lemma case_find_metadata:
  "(case find (\<lambda>n. n = ''metadata'') ts of Some m \<Rightarrow> A | None \<Rightarrow> B) =
     (if ''metadata'' \<in> set ts then A else B)"
  by (induction ts) auto

text \<open>
  C6, as stated: available if and only if the canonical artifact exists, is not empty and
  the opened database has a table named \<open>tiles\<close> or \<open>tile\<close>. On the code this fails: a
  database that opens and lists no table at all is reported available.
\<close>

theorem available_without_tiles_table:
  "isAvailable (examplePlatform silent (always noTablesDb)) withPackage = True
   \<and> tables (engine (examplePlatform silent (always noTablesDb)) examplePackage) = Some []"
  by (simp add: isAvailable_def checkOfflineMapAvailability_def initializeDatabase_def
      initializeCatch_def fexists_def fsize_def mbtilesPath_def setter_defs fixture_defs
      sqliteMagic_def)

text \<open>
  C6, amended. The check is true if and only if the canonical artifact exists, has size
  greater than zero, and opening it and running the queries raises no exception: the table
  listing, the row count on the \<open>tiles\<close> or \<open>tile\<close> table when there is one, and the
  metadata query when there is a \<open>metadata\<close> table. An exception gives false and is not
  propagated.
\<close>

theorem isAvailable_iff_queries_succeed:
  "isAvailable P s \<longleftrightarrow>
     (case files s (mbtilesPath P) of
        None \<Rightarrow> False
      | Some c \<Rightarrow>
          length c > 0 \<and> opens (engine P c) \<and>
          (case tables (engine P c) of
             None \<Rightarrow> False
           | Some ts \<Rightarrow>
               (case find isTilesTable ts of
                  None \<Rightarrow> True
                | Some t \<Rightarrow> count_ok (engine P c) t)
               \<and> (''metadata'' \<in> set ts \<longrightarrow> metadata_ok (engine P c))))"
  unfolding isAvailable_def checkOfflineMapAvailability_def initializeDatabase_def
    initializeCatch_def fexists_def fsize_def setOfflineMapAvailable_def setDb_def Let_def
    case_find_metadata
  by (auto split: option.splits)

theorem isAvailable_iff_queries_succeed_witness:
  "isAvailable (examplePlatform silent (always tilesDb)) withPackage = True
   \<and> isAvailable (examplePlatform silent (always notADb)) withPackage = False
   \<and> isAvailable (examplePlatform silent (always tilesDb)) fresh = False"
  using isAvailable_iff_queries_succeed [of "examplePlatform silent (always tilesDb)" withPackage]
    isAvailable_iff_queries_succeed [of "examplePlatform silent (always notADb)" withPackage]
    isAvailable_iff_queries_succeed [of "examplePlatform silent (always tilesDb)" fresh]
  by (simp add: mbtilesPath_def fixture_defs sqliteMagic_def isTilesTable_def)


subsection \<open>Deleting the installed package\<close>

text \<open>
  What the delete handler does, for every platform, render and state: it closes the handle
  that its render saw, if any, before it looks at the file; it deletes the canonical
  artifact only if it exists; when no canonical artifact exists the store is left as it
  is, and a second consecutive call only shows the alert again.
\<close>

lemma deleteOfflineMap_effects:
  "trace (deleteOfflineMap P r s) =
     trace s
     @ (case seen_db r of Some h \<Rightarrow> [CloseDb h] | None \<Rightarrow> [])
     @ (if seen_db r \<noteq> None \<and> close_fails P \<noteq> None
        then [ConsoleError ''Error deleting offline map:'' (PlatformError (the (close_fails P))),
              Alert ''Error'' ''Failed to delete offline map'']
        else (if fexists (files s) (mbtilesPath P) then [DeleteFile (mbtilesPath P)] else [])
             @ [Alert ''Success'' ''Offline map deleted successfully''])
   \<and> files (deleteOfflineMap P r s) =
       (if fexists (files s) (mbtilesPath P) \<and> \<not> (seen_db r \<noteq> None \<and> close_fails P \<noteq> None)
        then (files s)(mbtilesPath P := None) else files s)
   \<and> (\<not> fexists (files s) (mbtilesPath P) \<longrightarrow>
        files (deleteOfflineMap P r s) = files s)
   \<and> (close_fails P = None \<or> seen_db r = None \<longrightarrow>
        \<not> fexists (files (deleteOfflineMap P r s)) (mbtilesPath P)
        \<and> files (deleteOfflineMap P r' (deleteOfflineMap P r s)) = files (deleteOfflineMap P r s))
   \<and> (close_fails P = None \<longrightarrow>
        trace (deleteOfflineMap P (renderOf (deleteOfflineMap P (renderOf s) s))
                  (deleteOfflineMap P (renderOf s) s))
            = trace (deleteOfflineMap P (renderOf s) s)
              @ [Alert ''Success'' ''Offline map deleted successfully''])"
  by (auto simp: deleteOfflineMap_def deleteFile_def deleteCatch_def renderOf_def fexists_def
      setter_defs split: option.splits)

text \<open>
  C9. The delete handler is to close any open database handle before the file is deleted
  (the source says \<open>Close database connection first\<close>). The test \<open>if (db)\<close> reads the
  constant of the handler's render. The availability check sets \<open>offlineMapAvailable\<close>
  before it opens the database and sets \<open>db\<close>, so there is a render that shows the delete
  button while its \<open>db\<close> is null. By the time its handler runs the database is open:
  the file is deleted with no close before it, and the component still holds the handle.
  The handler of the render that follows closes first.
\<close>

theorem delete_from_render_before_open_skips_close:
  "db (checkOfflineMapAvailability (examplePlatform silent (always tilesDb)) withPackage)
     = Some (exampleDir @ ''kolkata_10km.mbtiles'')
   \<and> trace (deleteOfflineMap (examplePlatform silent (always tilesDb)) renderBeforeOpen
        (checkOfflineMapAvailability (examplePlatform silent (always tilesDb)) withPackage))
     = [DeleteFile (exampleDir @ ''kolkata_10km.mbtiles''),
        Alert ''Success'' ''Offline map deleted successfully'']
   \<and> files (deleteOfflineMap (examplePlatform silent (always tilesDb)) renderBeforeOpen
        (checkOfflineMapAvailability (examplePlatform silent (always tilesDb)) withPackage))
        (exampleDir @ ''kolkata_10km.mbtiles'') = None
   \<and> db (deleteOfflineMap (examplePlatform silent (always tilesDb)) renderBeforeOpen
        (checkOfflineMapAvailability (examplePlatform silent (always tilesDb)) withPackage))
     = Some (exampleDir @ ''kolkata_10km.mbtiles'')
   \<and> trace (deleteOfflineMap (examplePlatform silent (always tilesDb))
        (renderOf (checkOfflineMapAvailability (examplePlatform silent (always tilesDb)) withPackage))
        (checkOfflineMapAvailability (examplePlatform silent (always tilesDb)) withPackage))
     = [CloseDb (exampleDir @ ''kolkata_10km.mbtiles''),
        DeleteFile (exampleDir @ ''kolkata_10km.mbtiles''),
        Alert ''Success'' ''Offline map deleted successfully'']"
  by code_simp

subsection \<open>Validation and install: what a run leaves behind\<close>

lemma check_trace: "trace (checkOfflineMapAvailability P s) = trace s"
  by (simp add: checkOfflineMapAvailability_def initializeDatabase_def initializeCatch_def
      setOfflineMapAvailable_def setDb_def Let_def split: option.splits)

lemma check_files: "files (checkOfflineMapAvailability P s) = files s"
  by (simp add: checkOfflineMapAvailability_def initializeDatabase_def initializeCatch_def
      setOfflineMapAvailable_def setDb_def Let_def split: option.splits)

lemma processCatch_trace:
  "trace (processCatch P e s) =
     trace s @ [ConsoleError ''Processing failed:'' e,
                Alert ''Processing Failed'' (processFailedMessage e)]
     @ (if fexists (files s) (mbtilesPath P) then [DeleteFile (mbtilesPath P)] else [])"
  by (simp add: processCatch_def Let_def setter_defs)

lemma processCatch_files:
  "files (processCatch P e s) = (files s)(mbtilesPath P := None)"
  by (auto simp: processCatch_def Let_def setter_defs fexists_def)

lemma isAvailable_absent:
  "files s (mbtilesPath P) = None \<Longrightarrow> \<not> isAvailable P s"
  by (simp add: isAvailable_def checkOfflineMapAvailability_def fexists_def
      setOfflineMapAvailable_def)

lemma stale_render_never_installs:
  "\<not> seen_offlineMapAvailable r \<Longrightarrow>
     files (processDownloadedFile P r p s) (mbtilesPath P) = None"
  by (simp add: processDownloadedFile_def Let_def processCatch_files split: option.splits)

text \<open>
  C2, as stated: after every failed run the provisional artifact is removed, the canonical
  artifact is untouched and the availability is what it was. On the code this fails. A
  download of sixteen zero bytes fails validation and the provisional file is still there
  afterwards. A download that passes validation replaces the installed package; when the
  database then rejects it, the clean-up deletes the file at the canonical path, and the
  availability goes from true to false.
\<close>

theorem failed_run_keeps_provisional_and_touches_canonical:
  "thrown (trace (startDownload (examplePlatform (deliver zeroHeader) strictEngine)
                    (renderOf fresh) fresh)) = [NotValidSQLite]
   \<and> files (startDownload (examplePlatform (deliver zeroHeader) strictEngine)
                    (renderOf fresh) fresh)
        (exampleDir @ ''kolkata_10km_download.mbtiles'') = Some zeroHeader
   \<and> isAvailable (examplePlatform (deliver acceptedFile) strictEngine) withPackage = True
   \<and> thrown (trace (startDownload (examplePlatform (deliver acceptedFile) strictEngine)
                    (renderOf withPackage) withPackage)) = [Corrupted]
   \<and> files (startDownload (examplePlatform (deliver acceptedFile) strictEngine)
                    (renderOf withPackage) withPackage)
        (exampleDir @ ''kolkata_10km.mbtiles'') = None
   \<and> isAvailable (examplePlatform (deliver acceptedFile) strictEngine)
        (startDownload (examplePlatform (deliver acceptedFile) strictEngine)
                    (renderOf withPackage) withPackage) = False"
  by code_simp

text \<open>
  C2, amended. Every failed run of \<open>processDownloadedFile\<close> is caught and reported by one
  \<open>Processing Failed\<close> alert, with no success alert. The failure handling does not remove
  the provisional artifact: after a failure before the move (empty file, invalid format)
  the file at the provisional path is what it was. After a failure that comes later
  (failed move, failed check after the move, failed check after the install) no file is
  left at the canonical path and the package is not available.
\<close>

theorem processDownloadedFile_failure_effects:
  assumes distinct: "filePath \<noteq> mbtilesPath P"
  shows "(thrown (trace (processDownloadedFile P r filePath s)) = thrown (trace s)
          \<and> alerts (trace (processDownloadedFile P r filePath s)) =
              alerts (trace s) @ [(''Success!'', ''Offline map downloaded and installed successfully!'')])
       \<or> (\<exists>e. thrown (trace (processDownloadedFile P r filePath s)) = thrown (trace s) @ [e]
           \<and> alerts (trace (processDownloadedFile P r filePath s)) =
               alerts (trace s) @ [(''Processing Failed'', processFailedMessage e)]
           \<and> (e = EmptyOrInvalid \<or> e = NotValidSQLite \<longrightarrow>
                files (processDownloadedFile P r filePath s) filePath = files s filePath)
           \<and> (e \<noteq> EmptyOrInvalid \<and> e \<noteq> NotValidSQLite \<longrightarrow>
                \<not> fexists (files (processDownloadedFile P r filePath s)) (mbtilesPath P)
                \<and> \<not> isAvailable P (processDownloadedFile P r filePath s)))"
  using distinct
  by (auto simp: processDownloadedFile_def Let_def processCatch_trace processCatch_files
      check_trace check_files thrown_append alerts_append successAlert_def setter_defs
      fexists_def isAvailable_absent split: option.splits)

theorem processDownloadedFile_failure_effects_witness:
  "files (processDownloadedFile (examplePlatform silent strictEngine) (renderOf fresh)
            (exampleDir @ ''kolkata_10km_download.mbtiles'')
            (downloaded zeroHeader))
     (exampleDir @ ''kolkata_10km_download.mbtiles'') = Some zeroHeader
   \<and> \<not> isAvailable (examplePlatform silent strictEngine)
        (processDownloadedFile (examplePlatform silent strictEngine) (renderOf fresh)
            (exampleDir @ ''kolkata_10km_download.mbtiles'')
            (downloaded acceptedFile))"
proof -
  let ?P = "examplePlatform silent strictEngine"
  let ?r = "renderOf fresh"
  let ?p = "exampleDir @ ''kolkata_10km_download.mbtiles''"
  let ?z = "downloaded zeroHeader"
  let ?a = "downloaded acceptedFile"
  have d: "?p \<noteq> mbtilesPath ?P" by code_simp
  have z0: "thrown (trace ?z) = []" and a0: "thrown (trace ?a) = []" by code_simp+
  have zt: "thrown (trace (processDownloadedFile ?P ?r ?p ?z)) = [NotValidSQLite]" by code_simp
  have at: "thrown (trace (processDownloadedFile ?P ?r ?p ?a)) = [Corrupted]" by code_simp
  have zf: "files ?z ?p = Some zeroHeader" by code_simp
  from processDownloadedFile_failure_effects [OF d, of ?r ?z] z0 zt
  have "files (processDownloadedFile ?P ?r ?p ?z) ?p = files ?z ?p" by auto
  moreover from processDownloadedFile_failure_effects [OF d, of ?r ?a] a0 at
  have "\<not> isAvailable ?P (processDownloadedFile ?P ?r ?p ?a)" by auto
  ultimately show ?thesis using zf by simp
qed

text \<open>
  C3. A run in which the header is accepted, the move succeeds and the check after the
  move passes is to end on the success path with the package available. The handler was
  created by a render that saw no offline map (the download button is only shown then),
  and the test after the availability check reads that render's constant: the check finds
  the package available, the code throws all the same, and the clean-up deletes the
  package it has just installed.
\<close>

theorem valid_download_is_deleted_again:
  "thrown (trace (startDownload (examplePlatform (deliver acceptedFile) (always tilesDb))
                    (renderOf fresh) fresh)) = [Corrupted]
   \<and> alerts (trace (startDownload (examplePlatform (deliver acceptedFile) (always tilesDb))
                    (renderOf fresh) fresh))
       = [(''Processing Failed'',
           ''Failed to process the downloaded map.'' @ [CHR 0x0A] @ ''The downloaded file is corrupted.'')]
   \<and> offlineMapAvailable (startDownload (examplePlatform (deliver acceptedFile) (always tilesDb))
                    (renderOf fresh) fresh) = True
   \<and> files (startDownload (examplePlatform (deliver acceptedFile) (always tilesDb))
                    (renderOf fresh) fresh)
        (exampleDir @ ''kolkata_10km.mbtiles'') = None
   \<and> isAvailable (examplePlatform (deliver acceptedFile) (always tilesDb))
        (startDownload (examplePlatform (deliver acceptedFile) (always tilesDb))
                    (renderOf fresh) fresh) = False"
  by code_simp

subsection \<open>Transfers and their reports\<close>

lemma fold_progressCallback_trace:
  "trace (fold progressCallback ts s) = trace s @ reported ts"
  by (induction ts arbitrary: s) (simp_all add: progressCallback_def setDownloadProgress_def)

lemma fold_progressCallback_files:
  "files (fold progressCallback ts s) = files s"
  by (induction ts arbitrary: s) (simp_all add: progressCallback_def setDownloadProgress_def)

lemma reportProgress_trace:
  "trace (reportProgress P url dest s) =
     trace s @ Transfer url dest # reported (ticks (net P (length (transfers (trace s))) url))"
  by (simp add: reportProgress_def fold_progressCallback_trace)

lemma reportProgress_files: "files (reportProgress P url dest s) = files s"
  by (simp add: reportProgress_def fold_progressCallback_files)

lemma transfers_reported: "transfers (reported ts) = []"
  by (induction ts) simp_all

lemma alerts_reported: "alerts (reported ts) = []"
  by (induction ts) simp_all

lemma thrown_reported: "thrown (reported ts) = []"
  by (induction ts) simp_all


lemma processDownloadedFile_transfers:
  "transfers (trace (processDownloadedFile P r p s)) = transfers (trace s)"
  by (simp add: processDownloadedFile_def Let_def processCatch_trace check_trace
      transfers_append successAlert_def setter_defs split: option.splits)


lemma startCatch_trace:
  "trace (startCatch e s) =
     trace s @ [ConsoleError ''Download failed:'' e, Alert ''Download Failed'' (downloadFailedMessage e)]"
  by (simp add: startCatch_def setter_defs)

lemma doctype_fails_validation:
  "prefix ''<!DOCTYPE html>'' c \<Longrightarrow> fs p = Some c \<Longrightarrow> \<not> isValidSQLiteDatabase fs p"
  by (auto simp: isValidSQLiteDatabase_def startsWith_def prefix_def b64digit_def b64alphabet_def)

lemma downloadAsync_settled:
  assumes "downloadAsync P url dest s = (res, s2)"
  shows "trace s2 = trace s @ Transfer url dest
            # reported (ticks (net P (length (transfers (trace s))) url))"
    and "res = Resolved (Some uri) \<Longrightarrow>
           uri = dest \<and> outcome (net P (length (transfers (trace s))) url) = Delivered (the (files s2 uri))
           \<and> files s2 = (files s)(dest \<mapsto> the (files s2 uri))"
    and "res \<noteq> Resolved (Some dest) \<Longrightarrow> files s2 = files s"
  using assms
  by (auto simp: downloadAsync_def Let_def reportProgress_trace reportProgress_files
      split: outcome.splits)

lemma startTry_transfers:
  "length (transfers (trace (startTry P r s))) \<le> length (transfers (trace s)) + 2"
  unfolding startTry_def Let_def
  by (auto split: prod.splits settled.splits option.splits
      dest!: downloadAsync_settled(1)
      simp: startCatch_trace transfers_append transfers_reported
        processDownloadedFile_transfers removeExistingTemp_def setter_defs)

subsection \<open>The direct link of a redirect page\<close>

lemma confirmPattern_nonempty: "confirmPattern \<noteq> []"
  by (simp add: confirmPattern_def)

lemma matchHere_None:
  "matchHere z = None \<longleftrightarrow> \<not> (\<exists>t rest. z = confirmPattern @ t # rest \<and> t \<noteq> dquote)"
proof (cases "prefix confirmPattern z")
  case False
  then show ?thesis by (auto simp: matchHere_def)
next
  case True
  then obtain y where z: "z = confirmPattern @ y" by (auto simp: prefix_def)
  show ?thesis
    by (cases y) (auto simp: matchHere_def z Let_def)
qed

lemma matchHere_Some:
  assumes "matchHere z = Some m"
  shows "\<exists>tok rest. z = confirmPattern @ tok @ rest \<and> tok \<noteq> [] \<and> dquote \<notin> set tok
           \<and> m = confirmPattern @ tok"
proof -
  from assms have p: "prefix confirmPattern z"
    by (auto simp: matchHere_def split: if_splits)
  then obtain y where z: "z = confirmPattern @ y" by (auto simp: prefix_def)
  let ?tok = "takeWhile (\<lambda>c. c \<noteq> dquote) y"
  from assms have m: "m = confirmPattern @ ?tok" and ne: "?tok \<noteq> []"
    by (auto simp: matchHere_def z Let_def split: if_splits)
  have "y = ?tok @ dropWhile (\<lambda>c. c \<noteq> dquote) y" by simp
  moreover have "dquote \<notin> set ?tok" by (auto dest: set_takeWhileD)
  ultimately show ?thesis using z m ne by blast
qed

lemma matchFirst_None:
  "matchFirst s = None \<longleftrightarrow> (\<forall>pre z. s = pre @ z \<longrightarrow> matchHere z = None)"
proof (induction s)
  case Nil
  then show ?case by (simp add: matchHere_def confirmPattern_nonempty)
next
  case (Cons c cs)
  show ?case
  proof
    assume a: "matchFirst (c # cs) = None"
    then have here: "matchHere (c # cs) = None" and rest: "matchFirst cs = None"
      by (auto split: option.splits)
    show "\<forall>pre z. c # cs = pre @ z \<longrightarrow> matchHere z = None"
    proof (intro allI impI)
      fix pre z assume e: "c # cs = pre @ z"
      show "matchHere z = None"
      proof (cases pre)
        case Nil
        with e here show ?thesis by simp
      next
        case (Cons p ps)
        with e have "cs = ps @ z" by simp
        with rest Cons.IH show ?thesis by blast
      qed
    qed
  next
    assume a: "\<forall>pre z. c # cs = pre @ z \<longrightarrow> matchHere z = None"
    then have here: "matchHere (c # cs) = None" by (metis append_Nil)
    have "\<forall>pre z. cs = pre @ z \<longrightarrow> matchHere z = None"
      using a by (metis append_Cons)
    with Cons.IH have "matchFirst cs = None" by blast
    with here show "matchFirst (c # cs) = None" by simp
  qed
qed

lemma matchFirst_Some:
  "matchFirst s = Some m \<Longrightarrow> \<exists>pre z. s = pre @ z \<and> matchHere z = Some m"
proof (induction s)
  case Nil
  then show ?case by simp
next
  case (Cons c cs)
  show ?case
  proof (cases "matchHere (c # cs)")
    case None
    with Cons.prems have "matchFirst cs = Some m" by simp
    with Cons.IH obtain pre z where "cs = pre @ z" "matchHere z = Some m" by blast
    then have "c # cs = (c # pre) @ z \<and> matchHere z = Some m" by simp
    then show ?thesis by blast
  next
    case (Some a)
    with Cons.prems have "matchHere (c # cs) = Some m" by simp
    then have "c # cs = [] @ (c # cs) \<and> matchHere (c # cs) = Some m" by simp
    then show ?thesis by blast
  qed
qed

lemma extract_None:
  "extractDirectDownloadLink c = None \<longleftrightarrow>
     \<not> (\<exists>pre t rest. c = pre @ confirmPattern @ t # rest \<and> t \<noteq> dquote)"
proof -
  have "extractDirectDownloadLink c = None \<longleftrightarrow> matchFirst c = None"
    by (simp add: extractDirectDownloadLink_def split: option.splits)
  also have "\<dots> \<longleftrightarrow> (\<forall>pre z. c = pre @ z \<longrightarrow> matchHere z = None)"
    by (rule matchFirst_None)
  also have "\<dots> \<longleftrightarrow> \<not> (\<exists>pre t rest. c = pre @ confirmPattern @ t # rest \<and> t \<noteq> dquote)"
    unfolding matchHere_None by blast
  finally show ?thesis .
qed

lemma extract_Some:
  assumes "extractDirectDownloadLink c = Some l"
  shows "\<exists>pre tok rest. c = pre @ confirmPattern @ tok @ rest \<and> tok \<noteq> [] \<and> dquote \<notin> set tok
           \<and> l = ''https://drive.google.com/'' @ confirmPattern @ tok"
proof -
  from assms obtain m where m: "matchFirst c = Some m" and l: "l = ''https://drive.google.com/'' @ m"
    by (auto simp: extractDirectDownloadLink_def split: option.splits)
  from matchFirst_Some [OF m] obtain pre z where c: "c = pre @ z" and h: "matchHere z = Some m"
    by blast
  from matchHere_Some [OF h] obtain tok rest where
    "z = confirmPattern @ tok @ rest" "tok \<noteq> []" "dquote \<notin> set tok" "m = confirmPattern @ tok"
    by blast
  with c l show ?thesis by blast
qed

subsection \<open>The paths through the download operation\<close>

lemma removeExistingTemp_trace:
  "trace (removeExistingTemp P s) =
     trace s @ (if fexists (files s) (tempDownloadPath P) then [DeleteFile (tempDownloadPath P)] else [])"
  by (simp add: removeExistingTemp_def deleteAsync_def)

lemma removeExistingTemp_transfers:
  "transfers (trace (removeExistingTemp P s)) = transfers (trace s)"
  by (simp add: removeExistingTemp_trace transfers_append)

lemma downloadAsync_Delivered:
  assumes "outcome (net P (length (transfers (trace s))) url) = Delivered c"
  shows "downloadAsync P url dest s =
           (Resolved (Some dest), (reportProgress P url dest s)\<lparr>files := (files s)(dest \<mapsto> c)\<rparr>)"
  using assms by (simp add: downloadAsync_def Let_def reportProgress_files)

lemma startTry_html:
  assumes first: "outcome (net P (length (transfers (trace s))) GITHUB_RELEASE_URL) = Delivered c"
    and html: "includesStr (take 100 c) ''<!DOCTYPE html>''"
  shows "startTry P r s =
           (case extractDirectDownloadLink c of
              None \<Rightarrow> startCatch LinkExtractionFailed (afterFirst P c s)
            | Some directDownloadLink \<Rightarrow>
                (case downloadAsync P directDownloadLink (tempDownloadPath P) (afterFirst P c s) of
                   (Rejected m, s3) \<Rightarrow> startCatch (PlatformError m) s3
                 | (Resolved None, s3) \<Rightarrow> startCatch RetryNoFileReceived s3
                 | (Resolved (Some retryUri), s3) \<Rightarrow> processDownloadedFile P r retryUri s3))"
proof -
  have f: "outcome (net P (length (transfers (trace (removeExistingTemp P s)))) GITHUB_RELEASE_URL)
             = Delivered c"
    using first by (simp add: removeExistingTemp_transfers)
  show ?thesis
    unfolding startTry_def Let_def
    by (simp add: downloadAsync_Delivered [OF f] html)
qed



lemma startDownload_trace:
  "trace (startDownload P r s) =
     trace (startTry P r (setDownloadProgress (Num 0) (setDownloading True s))) @ [Progress (Num 0)]"
  by (simp add: startDownload_def startFinally_def setter_defs)

lemma started_trace:
  "trace (setDownloadProgress (Num 0) (setDownloading True s)) = trace s @ [Progress (Num 0)]"
  "files (setDownloadProgress (Num 0) (setDownloading True s)) = files s"
  by (simp_all add: setter_defs)


text \<open>
  C4. When the first transfer delivers a document whose first 100 bytes contain the HTML
  signature, the whole document is searched for \<open>uc?export=download&confirm=<token>\<close>
  with a non-empty token free of double quotes. If there is none, the run fails with the
  link-extraction error and no second transfer is issued. If there is one, exactly one
  more transfer is issued, for the fragment resolved against the hosting domain, to the
  same provisional path.
\<close>

theorem redirect_page_retried_once:
  assumes first: "outcome (net P (length (transfers (trace s))) GITHUB_RELEASE_URL) = Delivered c"
    and html: "includesStr (take 100 c) ''<!DOCTYPE html>''"
  shows "(extractDirectDownloadLink c = None \<longleftrightarrow>
            \<not> (\<exists>pre t rest. c = pre @ confirmPattern @ t # rest \<and> t \<noteq> dquote))
       \<and> (extractDirectDownloadLink c = None \<longrightarrow>
            transfers (trace (startDownload P r s)) =
              transfers (trace s) @ [(GITHUB_RELEASE_URL, tempDownloadPath P)]
            \<and> thrown (trace (startDownload P r s)) = thrown (trace s) @ [LinkExtractionFailed]
            \<and> alerts (trace (startDownload P r s)) =
                alerts (trace s) @ [(''Download Failed'', downloadFailedMessage LinkExtractionFailed)])
       \<and> (\<forall>l. extractDirectDownloadLink c = Some l \<longrightarrow>
            (\<exists>pre tok rest. c = pre @ confirmPattern @ tok @ rest \<and> tok \<noteq> [] \<and> dquote \<notin> set tok
               \<and> l = ''https://drive.google.com/'' @ confirmPattern @ tok)
            \<and> transfers (trace (startDownload P r s)) =
                transfers (trace s) @ [(GITHUB_RELEASE_URL, tempDownloadPath P), (l, tempDownloadPath P)])"
proof (intro conjI impI allI)
  let ?s0 = "setDownloadProgress (Num 0) (setDownloading True s)"
  have first0: "outcome (net P (length (transfers (trace ?s0))) GITHUB_RELEASE_URL) = Delivered c"
    using first by (simp add: started_trace transfers_append)
  note run = startTry_html [OF first0 html, of r]
  let ?s1 = "reportProgress P GITHUB_RELEASE_URL (tempDownloadPath P) (removeExistingTemp P ?s0)"
  have t1: "transfers (trace ?s1) =
              transfers (trace s) @ [(GITHUB_RELEASE_URL, tempDownloadPath P)]"
    by (simp add: reportProgress_trace removeExistingTemp_trace started_trace transfers_append
        transfers_reported)
  have a1: "alerts (trace ?s1) = alerts (trace s)"
    by (simp add: reportProgress_trace removeExistingTemp_trace started_trace alerts_append
        alerts_reported)
  have e1: "thrown (trace ?s1) = thrown (trace s)"
    by (simp add: reportProgress_trace removeExistingTemp_trace started_trace thrown_append
        thrown_reported)
  show "extractDirectDownloadLink c = None \<longleftrightarrow>
          \<not> (\<exists>pre t rest. c = pre @ confirmPattern @ t # rest \<and> t \<noteq> dquote)"
    by (rule extract_None)
  {
    assume none: "extractDirectDownloadLink c = None"
    then have tr: "trace (startDownload P r s) =
        trace (startCatch LinkExtractionFailed (afterFirst P c ?s0)) @ [Progress (Num 0)]"
      by (simp add: startDownload_trace run)
    show "transfers (trace (startDownload P r s)) =
            transfers (trace s) @ [(GITHUB_RELEASE_URL, tempDownloadPath P)]"
      by (simp add: tr startCatch_trace transfers_append t1)
    show "thrown (trace (startDownload P r s)) = thrown (trace s) @ [LinkExtractionFailed]"
      by (simp add: tr startCatch_trace thrown_append e1)
    show "alerts (trace (startDownload P r s)) =
            alerts (trace s) @ [(''Download Failed'', downloadFailedMessage LinkExtractionFailed)]"
      by (simp add: tr startCatch_trace alerts_append a1)
  }
  fix l assume some: "extractDirectDownloadLink c = Some l"
  show "\<exists>pre tok rest. c = pre @ confirmPattern @ tok @ rest \<and> tok \<noteq> [] \<and> dquote \<notin> set tok
          \<and> l = ''https://drive.google.com/'' @ confirmPattern @ tok"
    by (rule extract_Some [OF some])
  obtain res s3 where d: "downloadAsync P l (tempDownloadPath P) (afterFirst P c ?s0) = (res, s3)"
    by (cases "downloadAsync P l (tempDownloadPath P) (afterFirst P c ?s0)")
  have t3: "transfers (trace s3) =
      transfers (trace s) @ [(GITHUB_RELEASE_URL, tempDownloadPath P), (l, tempDownloadPath P)]"
    by (simp add: downloadAsync_settled(1) [OF d] transfers_append transfers_reported t1)
  have "transfers (trace (startTry P r ?s0)) = transfers (trace s3)"
    by (simp add: run some d startCatch_trace transfers_append processDownloadedFile_transfers
        split: settled.splits option.splits)
  then show "transfers (trace (startDownload P r s)) =
      transfers (trace s) @ [(GITHUB_RELEASE_URL, tempDownloadPath P), (l, tempDownloadPath P)]"
    by (simp add: startDownload_trace transfers_append t3)
qed

theorem redirect_page_retried_once_witness:
  "transfers (trace (startDownload (examplePlatform (deliverInTurn [redirectPage, acceptedFile]) strictEngine)
                       (renderOf fresh) fresh))
     = [(GITHUB_RELEASE_URL, exampleDir @ ''kolkata_10km_download.mbtiles''),
        (''https://drive.google.com/uc?export=download&confirm=XYZ&id=1'',
         exampleDir @ ''kolkata_10km_download.mbtiles'')]
   \<and> transfers (trace (startDownload (examplePlatform (deliverInTurn [quotaPage, acceptedFile]) strictEngine)
                       (renderOf fresh) fresh))
     = [(GITHUB_RELEASE_URL, exampleDir @ ''kolkata_10km_download.mbtiles'')]
   \<and> thrown (trace (startDownload (examplePlatform (deliverInTurn [quotaPage, acceptedFile]) strictEngine)
                       (renderOf fresh) fresh))
     = [LinkExtractionFailed]"
proof -
  let ?P = "examplePlatform (deliverInTurn [redirectPage, acceptedFile]) strictEngine"
  let ?Q = "examplePlatform (deliverInTurn [quotaPage, acceptedFile]) strictEngine"
  let ?r = "renderOf fresh"
  let ?s = fresh
  have p1: "outcome (net ?P (length (transfers (trace ?s))) GITHUB_RELEASE_URL) = Delivered redirectPage"
    by code_simp
  have p2: "includesStr (take 100 redirectPage) ''<!DOCTYPE html>''" by code_simp
  have p3: "extractDirectDownloadLink redirectPage
              = Some ''https://drive.google.com/uc?export=download&confirm=XYZ&id=1''"
    by code_simp
  have q1: "outcome (net ?Q (length (transfers (trace ?s))) GITHUB_RELEASE_URL) = Delivered quotaPage"
    by code_simp
  have q2: "includesStr (take 100 quotaPage) ''<!DOCTYPE html>''" by code_simp
  have q3: "extractDirectDownloadLink quotaPage = None" by code_simp
  have e: "transfers (trace ?s) = []" "thrown (trace ?s) = []" by code_simp+
  have tp: "tempDownloadPath ?P = exampleDir @ ''kolkata_10km_download.mbtiles''"
    and tq: "tempDownloadPath ?Q = exampleDir @ ''kolkata_10km_download.mbtiles''"
    by (simp_all add: tempDownloadPath_def examplePlatform_def)
  from redirect_page_retried_once [OF p1 p2, of ?r] p3
  have a: "transfers (trace (startDownload ?P ?r ?s)) =
      transfers (trace ?s) @ [(GITHUB_RELEASE_URL, tempDownloadPath ?P),
        (''https://drive.google.com/uc?export=download&confirm=XYZ&id=1'', tempDownloadPath ?P)]"
    by blast
  from redirect_page_retried_once [OF q1 q2, of ?r] q3
  have b: "transfers (trace (startDownload ?Q ?r ?s)) =
      transfers (trace ?s) @ [(GITHUB_RELEASE_URL, tempDownloadPath ?Q)]
    \<and> thrown (trace (startDownload ?Q ?r ?s)) = thrown (trace ?s) @ [LinkExtractionFailed]"
    by blast
  from a b show ?thesis by (simp add: e tp tq)
qed

subsection \<open>A second HTML answer\<close>

lemma processDownloadedFile_doctype:
  assumes c2: "prefix ''<!DOCTYPE html>'' c2" and f: "files s p = Some c2"
  shows "processDownloadedFile P r p s = processCatch P NotValidSQLite s"
proof -
  from c2 have "c2 \<noteq> []" by auto
  with f have "fexists (files s) p" "fsize (files s) p \<noteq> 0"
    by (simp_all add: fexists_def fsize_def)
  moreover have "\<not> isValidSQLiteDatabase (files s) p"
    using doctype_fails_validation [of c2 "files s" p] c2 f by simp
  ultimately show ?thesis by (simp add: processDownloadedFile_def)
qed


text \<open>
  C5, as stated: a retry whose content is again HTML fails with an error of its own. The
  code makes no HTML check on the retry: the content goes to format validation and fails
  there, with the error and the alert of any other invalid file. Below, the retry answers
  with an HTML page in the first run and with sixteen zero bytes in the second.
\<close>

theorem second_html_is_an_invalid_file:
  "thrown (trace (startDownload (examplePlatform (deliverInTurn [redirectPage, quotaPage]) strictEngine)
                    (renderOf fresh) fresh)) = [NotValidSQLite]
   \<and> alerts (trace (startDownload (examplePlatform (deliverInTurn [redirectPage, quotaPage]) strictEngine)
                    (renderOf fresh) fresh))
       = [(''Processing Failed'',
           ''Failed to process the downloaded map.'' @ [CHR 0x0A]
             @ ''The downloaded file is not a valid MBTiles file.'')]
   \<and> thrown (trace (startDownload (examplePlatform (deliverInTurn [redirectPage, zeroHeader]) strictEngine)
                    (renderOf fresh) fresh)) = [NotValidSQLite]
   \<and> alerts (trace (startDownload (examplePlatform (deliverInTurn [redirectPage, zeroHeader]) strictEngine)
                    (renderOf fresh) fresh))
       = [(''Processing Failed'',
           ''Failed to process the downloaded map.'' @ [CHR 0x0A]
             @ ''The downloaded file is not a valid MBTiles file.'')]"
  by code_simp

text \<open>
  C5, amended. A run issues at most two transfer requests: the first, and at most one
  retry. If the retry delivers content that again begins with the HTML signature, the
  content is handed to format validation, the run fails there with the invalid-format
  error, and no third request is issued.
\<close>

theorem at_most_one_retry:
  "length (transfers (trace (startDownload P r s))) \<le> length (transfers (trace s)) + 2
   \<and> (outcome (net P (length (transfers (trace s))) GITHUB_RELEASE_URL) = Delivered c
        \<and> includesStr (take 100 c) ''<!DOCTYPE html>''
        \<and> extractDirectDownloadLink c = Some l
        \<and> outcome (net P (Suc (length (transfers (trace s)))) l) = Delivered c2
        \<and> prefix ''<!DOCTYPE html>'' c2
      \<longrightarrow> transfers (trace (startDownload P r s)) =
            transfers (trace s) @ [(GITHUB_RELEASE_URL, tempDownloadPath P), (l, tempDownloadPath P)]
          \<and> thrown (trace (startDownload P r s)) = thrown (trace s) @ [NotValidSQLite]
          \<and> alerts (trace (startDownload P r s)) =
              alerts (trace s) @ [(''Processing Failed'', processFailedMessage NotValidSQLite)])"
proof (intro conjI impI)
  let ?s0 = "setDownloadProgress (Num 0) (setDownloading True s)"
  have "length (transfers (trace (startTry P r ?s0))) \<le> length (transfers (trace ?s0)) + 2"
    by (rule startTry_transfers)
  then show "length (transfers (trace (startDownload P r s))) \<le> length (transfers (trace s)) + 2"
    by (simp add: startDownload_trace started_trace transfers_append)
next
  assume h: "outcome (net P (length (transfers (trace s))) GITHUB_RELEASE_URL) = Delivered c
        \<and> includesStr (take 100 c) ''<!DOCTYPE html>''
        \<and> extractDirectDownloadLink c = Some l
        \<and> outcome (net P (Suc (length (transfers (trace s)))) l) = Delivered c2
        \<and> prefix ''<!DOCTYPE html>'' c2"
  let ?s0 = "setDownloadProgress (Num 0) (setDownloading True s)"
  let ?s1 = "reportProgress P GITHUB_RELEASE_URL (tempDownloadPath P) (removeExistingTemp P ?s0)"
  let ?s2 = "afterFirst P c ?s0"
  let ?s3 = "(reportProgress P l (tempDownloadPath P) ?s2)
               \<lparr>files := (files ?s2)(tempDownloadPath P \<mapsto> c2)\<rparr>"
  have first0: "outcome (net P (length (transfers (trace ?s0))) GITHUB_RELEASE_URL) = Delivered c"
    using h by (simp add: started_trace transfers_append)
  have t1: "transfers (trace ?s1) = transfers (trace s) @ [(GITHUB_RELEASE_URL, tempDownloadPath P)]"
    by (simp add: reportProgress_trace removeExistingTemp_trace started_trace transfers_append
        transfers_reported)
  have a1: "alerts (trace ?s1) = alerts (trace s)"
    by (simp add: reportProgress_trace removeExistingTemp_trace started_trace alerts_append
        alerts_reported)
  have e1: "thrown (trace ?s1) = thrown (trace s)"
    by (simp add: reportProgress_trace removeExistingTemp_trace started_trace thrown_append
        thrown_reported)
  have second: "outcome (net P (length (transfers (trace ?s2))) l) = Delivered c2"
    using h by (simp add: t1)
  have run: "startTry P r ?s0 = processDownloadedFile P r (tempDownloadPath P) ?s3"
    using h by (simp add: startTry_html [OF first0] downloadAsync_Delivered [OF second])
  have "files ?s3 (tempDownloadPath P) = Some c2" by simp
  with h have fail: "processDownloadedFile P r (tempDownloadPath P) ?s3 = processCatch P NotValidSQLite ?s3"
    by (intro processDownloadedFile_doctype) simp_all
  have tr: "trace (startDownload P r s) = trace (processCatch P NotValidSQLite ?s3) @ [Progress (Num 0)]"
    by (simp only: startDownload_trace run fail)
  have t3: "trace ?s3 = trace ?s1 @ Transfer l (tempDownloadPath P)
              # reported (ticks (net P (length (transfers (trace ?s1))) l))"
    by (simp add: reportProgress_trace)
  show "transfers (trace (startDownload P r s)) =
      transfers (trace s) @ [(GITHUB_RELEASE_URL, tempDownloadPath P), (l, tempDownloadPath P)]"
    unfolding tr processCatch_trace t3
    by (simp add: transfers_append transfers_reported t1)
  show "thrown (trace (startDownload P r s)) = thrown (trace s) @ [NotValidSQLite]"
    unfolding tr processCatch_trace t3
    by (simp add: thrown_append thrown_reported e1)
  show "alerts (trace (startDownload P r s)) =
      alerts (trace s) @ [(''Processing Failed'', processFailedMessage NotValidSQLite)]"
    unfolding tr processCatch_trace t3
    by (simp add: alerts_append alerts_reported a1)
qed

theorem at_most_one_retry_witness:
  "thrown (trace (startDownload (examplePlatform (deliverInTurn [redirectPage, quotaPage]) strictEngine)
                    (renderOf fresh) fresh)) = [NotValidSQLite]
   \<and> length (transfers (trace (startDownload
        (examplePlatform (deliverInTurn [redirectPage, quotaPage]) strictEngine)
        (renderOf fresh) fresh))) = 2"
proof -
  let ?P = "examplePlatform (deliverInTurn [redirectPage, quotaPage]) strictEngine"
  let ?r = "renderOf fresh"
  let ?s = fresh
  let ?l = "''https://drive.google.com/uc?export=download&confirm=XYZ&id=1''"
  have h: "outcome (net ?P (length (transfers (trace ?s))) GITHUB_RELEASE_URL) = Delivered redirectPage
        \<and> includesStr (take 100 redirectPage) ''<!DOCTYPE html>''
        \<and> extractDirectDownloadLink redirectPage = Some ?l
        \<and> outcome (net ?P (Suc (length (transfers (trace ?s)))) ?l) = Delivered quotaPage
        \<and> prefix ''<!DOCTYPE html>'' quotaPage"
    by code_simp
  have e: "transfers (trace ?s) = []" "thrown (trace ?s) = []" by code_simp+
  from at_most_one_retry [of ?P ?r ?s redirectPage ?l quotaPage] h
  have "transfers (trace (startDownload ?P ?r ?s)) =
          transfers (trace ?s) @ [(GITHUB_RELEASE_URL, tempDownloadPath ?P), (?l, tempDownloadPath ?P)]
      \<and> thrown (trace (startDownload ?P ?r ?s)) = thrown (trace ?s) @ [NotValidSQLite]"
    by blast
  then show ?thesis by (simp add: e)
qed

subsection \<open>Progress\<close>








end
